theory Spec2Isabelle
  imports Main "HOL-Library.Sublist"
begin

section \<open>Shared JavaScript conventions\<close>

text \<open>
  Strings are \<^typ>\<open>string\<close>; a value that may be \<^verbatim>\<open>undefined\<close> or \<^verbatim>\<open>null\<close> is an
  \<^typ>\<open>'a option\<close>. Timestamps are milliseconds since the epoch as \<^typ>\<open>int\<close> (JavaScript
  numbers are exact on integers of that size). A JavaScript condition on a string is true
  when the string is present and not empty; on a number when it is present and not zero.
\<close>

definition truthy_str :: "string option \<Rightarrow> bool" where
  "truthy_str v = (case v of None \<Rightarrow> False | Some s \<Rightarrow> s \<noteq> [])"

definition truthy_num :: "int option \<Rightarrow> bool" where
  "truthy_num v = (case v of None \<Rightarrow> False | Some n \<Rightarrow> n \<noteq> 0)"

text \<open>\<^verbatim>\<open>a || b\<close> on strings: the left operand when it is truthy, the right one otherwise.\<close>

definition or_else :: "string option \<Rightarrow> string \<Rightarrow> string" where
  "or_else v d = (case v of None \<Rightarrow> d | Some s \<Rightarrow> if s = [] then d else s)"

text \<open>\<^verbatim>\<open>s.indexOf(p)\<close>: the position of the first occurrence of \<open>p\<close> in \<open>s\<close>, or \<open>-1\<close>.\<close>

fun indexOf :: "string \<Rightarrow> string \<Rightarrow> int" where
  "indexOf [] p = (if p = [] then 0 else - 1)"
| "indexOf (c # cs) p =
     (if prefix p (c # cs) then 0
      else (let i = indexOf cs p in if i < 0 then - 1 else i + 1))"

text \<open>\<^verbatim>\<open>s.split(c)\<close> on a one-character separator.\<close>

fun split_on :: "char \<Rightarrow> string \<Rightarrow> string list" where
  "split_on c [] = [[]]"
| "split_on c (x # xs) =
     (if x = c then [] # split_on c xs
      else (case split_on c xs of [] \<Rightarrow> [[x]] | w # ws \<Rightarrow> (x # w) # ws))"

text \<open>
  The error classes of \<^verbatim>\<open>types.ts\<close>: \<^verbatim>\<open>AuthenticationError\<close> and \<^verbatim>\<open>APIError\<close> (with its
  status code) extend \<^verbatim>\<open>GmailMCPError\<close>; \<open>JsError\<close> is a plain \<^verbatim>\<open>Error\<close> (or a
  \<^verbatim>\<open>TypeError\<close>) thrown by the code or by a library.
\<close>

datatype error = JsError string | AuthenticationError string | APIError string nat

fun message :: "error \<Rightarrow> string" where
  "message (JsError m) = m"
| "message (AuthenticationError m) = m"
| "message (APIError m c) = m"

fun isAuthenticationError :: "error \<Rightarrow> bool" where
  "isAuthenticationError (AuthenticationError m) = True"
| "isAuthenticationError e = False"


section \<open>The documentation cache (\<^verbatim>\<open>Context7Service\<close>)\<close>

record Context7Response =
  documentation :: string
  examples :: "string list"
  relevantLinks :: "string list"

text \<open>
  The service holds the enabled flag and the two maps of the source, one for the
  payloads and one for the expiry times.
\<close>

record Context7Service =
  enabled :: bool
  cache :: "string \<rightharpoonup> Context7Response"
  cacheExpiry :: "string \<rightharpoonup> int"

definition CACHE_DURATION :: int where
  "CACHE_DURATION = 30 * 60 * 1000"

text \<open>The constructor: \<^verbatim>\<open>enabled\<close> defaults to true, both maps start empty.\<close>

definition Context7Service_new :: "bool option \<Rightarrow> Context7Service" where
  "Context7Service_new en =
     \<lparr>enabled = (case en of None \<Rightarrow> True | Some b \<Rightarrow> b),
      cache = Map.empty, cacheExpiry = Map.empty\<rparr>"

text \<open>The key built at the head of \<^verbatim>\<open>getRelevantDocumentation\<close>.\<close>

definition cacheKey :: "string \<Rightarrow> string option \<Rightarrow> string" where
  "cacheKey operation context = operation @ ''-'' @ or_else context ''default''"

definition operationMap :: "(string \<times> string) list" where
  "operationMap =
     [(''authenticate'', ''Gmail API OAuth2 authentication''),
      (''listMessages'', ''Gmail API list messages''),
      (''getMessage'', ''Gmail API get message details''),
      (''sendMessage'', ''Gmail API send email''),
      (''createDraft'', ''Gmail API create draft''),
      (''updateDraft'', ''Gmail API update draft''),
      (''sendDraft'', ''Gmail API send draft''),
      (''listDrafts'', ''Gmail API list drafts''),
      (''batchOperation'', ''Gmail API batch modify messages''),
      (''getLabels'', ''Gmail API list labels''),
      (''getThread'', ''Gmail API get thread''),
      (''listThreads'', ''Gmail API list threads''),
      (''getStats'', ''Gmail API mailbox statistics'')]"

text \<open>
  The table lists the own properties of the source's object literal; an operation named
  after a member that every JavaScript object inherits (such as \<^verbatim>\<open>constructor\<close>) finds that
  member instead and yields a search term that is not one of these strings. The search
  term only travels to the fetch function, which every theorem below leaves arbitrary.
\<close>

definition mapOperationToSearchTerm :: "string \<Rightarrow> string option \<Rightarrow> string" where
  "mapOperationToSearchTerm operation context =
     (let baseSearch = or_else (map_of operationMap operation) (''Gmail API '' @ operation)
      in if truthy_str context then baseSearch @ '' '' @ the context else baseSearch)"

text \<open>
  \<^verbatim>\<open>getCachedResponse\<close> at clock reading \<open>now\<close>: a live entry is returned; an entry that is
  present but not live is deleted from both maps.
\<close>

definition getCachedResponse ::
  "string \<Rightarrow> int \<Rightarrow> Context7Service \<Rightarrow> Context7Response option \<times> Context7Service" where
  "getCachedResponse key now s =
     (let cached = cache s key; expiry = cacheExpiry s key
      in if cached \<noteq> None \<and> truthy_num expiry \<and> now < the expiry then (cached, s)
         else if cached \<noteq> None
           then (None, s\<lparr>cache := (cache s)(key := None),
                         cacheExpiry := (cacheExpiry s)(key := None)\<rparr>)
           else (None, s))"

definition setCachedResponse ::
  "string \<Rightarrow> Context7Response \<Rightarrow> int \<Rightarrow> Context7Service \<Rightarrow> Context7Service" where
  "setCachedResponse key response now s =
     s\<lparr>cache := (cache s)(key \<mapsto> response),
       cacheExpiry := (cacheExpiry s)(key \<mapsto> now + CACHE_DURATION)\<rparr>"

definition clearCache :: "Context7Service \<Rightarrow> Context7Service" where
  "clearCache s = s\<lparr>cache := Map.empty, cacheExpiry := Map.empty\<rparr>"

definition setEnabled :: "bool \<Rightarrow> Context7Service \<Rightarrow> Context7Service" where
  "setEnabled en s = s\<lparr>enabled := en\<rparr>"

definition isEnabled :: "Context7Service \<Rightarrow> bool" where
  "isEnabled s = enabled s"

text \<open>
  \<^verbatim>\<open>getRelevantDocumentation\<close>. The lookup function \<^verbatim>\<open>fetchFromContext7\<close> is a
  parameter: it maps the search term to the documentation or to the error it throws (the
  source's simulated lookup is one such function). The clock is read twice, in
  \<^verbatim>\<open>getCachedResponse\<close> (\<open>t_lookup\<close>) and, after the fetch has been awaited, in
  \<^verbatim>\<open>setCachedResponse\<close> (\<open>t_store\<close>). The result is the returned value (\<open>None\<close> for
  \<^verbatim>\<open>null\<close>), the service afterwards, and the search terms the fetch function was called
  with, in order.
\<close>

definition getRelevantDocumentation ::
  "(string \<Rightarrow> error + Context7Response) \<Rightarrow> int \<Rightarrow> int \<Rightarrow> string \<Rightarrow> string option \<Rightarrow>
   Context7Service \<Rightarrow> Context7Response option \<times> Context7Service \<times> string list" where
  "getRelevantDocumentation fetchFromContext7 t_lookup t_store operation context s =
     (if \<not> enabled s then (None, s, [])
      else
        (let key = cacheKey operation context;
             (cached, s1) = getCachedResponse key t_lookup s
         in case cached of
              Some d \<Rightarrow> (Some d, s1, [])
            | None \<Rightarrow>
               (let searchTerm = mapOperationToSearchTerm operation context
                in case fetchFromContext7 searchTerm of
                     Inr fetched \<Rightarrow>
                       (Some fetched, setCachedResponse key fetched t_store s1, [searchTerm])
                   | Inl err \<Rightarrow> (None, s1, [searchTerm]))))"

section \<open>The authentication service (\<^verbatim>\<open>AuthService\<close>)\<close>

record OAuth2Config =
  clientId :: string
  clientSecret :: string
  redirectUri :: string
  scopes :: "string list"

record GmailMCPConfig =
  oauth2 :: OAuth2Config
  tokenStoragePath :: "string option"
  defaultUserId :: "string option"
  context7Enabled :: "bool option"

text \<open>
  The token bundle. The token file is parsed and cast without a check, and the client's
  credentials are \<^verbatim>\<open>{}\<close> before authentication and after logout, so every field may be
  absent.
\<close>

record TokenData =
  access_token :: "string option"
  refresh_token :: "string option"
  scope :: "string option"
  token_type :: "string option"
  expiry_date :: "int option"

definition no_credentials :: TokenData where
  "no_credentials =
     \<lparr>access_token = None, refresh_token = None, scope = None, token_type = None,
      expiry_date = None\<rparr>"

text \<open>
  The service: its configuration, the token file's path and the credentials held by its
  OAuth2 client. A client handle is represented by the credentials it carries.
\<close>

record AuthService =
  config :: OAuth2Config
  storagePath :: string
  credentials :: TokenData

text \<open>
  The constructor. \<open>defaultPath\<close> stands for \<^verbatim>\<open>join(homedir(), '.gmail-mcp-tokens.json')\<close>,
  which the platform computes.
\<close>

definition AuthService_new :: "string \<Rightarrow> GmailMCPConfig \<Rightarrow> AuthService" where
  "AuthService_new defaultPath cfg =
     \<lparr>config = oauth2 cfg,
      storagePath = or_else (tokenStoragePath cfg) defaultPath,
      credentials = no_credentials\<rparr>"

definition setCredentials :: "TokenData \<Rightarrow> AuthService \<Rightarrow> AuthService" where
  "setCredentials tokens s = s\<lparr>credentials := tokens\<rparr>"


text \<open>
  \<^verbatim>\<open>process.env\<close> is a map from variable names to strings. Both factories build the same
  configuration object from it and differ only in how they read the documentation flag,
  which is the first argument here.
\<close>

definition config_of_env :: "bool \<Rightarrow> (string \<rightharpoonup> string) \<Rightarrow> GmailMCPConfig" where
  "config_of_env c7 env =
     \<lparr>oauth2 =
        \<lparr>clientId = or_else (env ''GOOGLE_CLIENT_ID'') [],
         clientSecret = or_else (env ''GOOGLE_CLIENT_SECRET'') [],
         redirectUri = or_else (env ''GOOGLE_REDIRECT_URI'') ''http://localhost:3000/oauth2callback'',
         scopes = split_on CHR '','' (or_else (env ''GOOGLE_SCOPES'')
                    ''https://www.googleapis.com/auth/gmail.modify'')\<rparr>,
      tokenStoragePath =
        (if truthy_str (env ''TOKEN_STORAGE_PATH'') then env ''TOKEN_STORAGE_PATH'' else None),
      defaultUserId = Some (or_else (env ''DEFAULT_USER_ID'') ''me''),
      context7Enabled = Some c7\<rparr>"

text \<open>
  \<^verbatim>\<open>AuthService.fromEnvironment\<close>: the documentation flag is on only for the value
  \<^verbatim>\<open>'true'\<close>; a missing client id or secret throws an \<^verbatim>\<open>AuthenticationError\<close>.
\<close>

definition fromEnvironment :: "string \<Rightarrow> (string \<rightharpoonup> string) \<Rightarrow> error + AuthService" where
  "fromEnvironment defaultPath env =
     (let cfg = config_of_env (env ''CONTEXT7_ENABLED'' = Some ''true'') env
      in if clientId (oauth2 cfg) = [] \<or> clientSecret (oauth2 cfg) = []
         then Inl (AuthenticationError
                ''Missing required environment variables: GOOGLE_CLIENT_ID and GOOGLE_CLIENT_SECRET'')
         else Inr (AuthService_new defaultPath cfg))"

subsection \<open>The manager and its factory (\<^verbatim>\<open>index.ts\<close>)\<close>

text \<open>
  The mail service keeps a reference to the authentication service, its user id and the
  Gmail client \<^verbatim>\<open>this.gmail\<close>, which is unset until \<^verbatim>\<open>initialize\<close> has succeeded
  (\<open>initialized\<close>). The Gmail client is built over the OAuth2 client of the
  authentication service, so a request made through it is authorized with the
  credentials that client holds at that moment.
\<close>

record GmailService =
  userId :: string
  initialized :: bool

definition GmailService_new :: "string option \<Rightarrow> GmailService" where
  "GmailService_new uid =
     \<lparr>userId = (case uid of None \<Rightarrow> ''me'' | Some u \<Rightarrow> u), initialized = False\<rparr>"

record GmailMCPManager =
  authService :: AuthService
  gmailService :: GmailService
  context7Service :: Context7Service

definition GmailMCPManager_new :: "string \<Rightarrow> GmailMCPConfig \<Rightarrow> GmailMCPManager" where
  "GmailMCPManager_new defaultPath cfg =
     \<lparr>authService = AuthService_new defaultPath cfg,
      gmailService = GmailService_new (defaultUserId cfg),
      context7Service = Context7Service_new (context7Enabled cfg)\<rparr>"

text \<open>
  \<^verbatim>\<open>createFromEnvironment\<close>: the documentation flag is on unless the variable is
  \<^verbatim>\<open>'false'\<close>; a missing client id or secret throws a plain \<^verbatim>\<open>Error\<close>.
\<close>

definition createFromEnvironment ::
  "string \<Rightarrow> (string \<rightharpoonup> string) \<Rightarrow> error + GmailMCPManager" where
  "createFromEnvironment defaultPath env =
     (let cfg = config_of_env (env ''CONTEXT7_ENABLED'' \<noteq> Some ''false'') env
      in if clientId (oauth2 cfg) = [] \<or> clientSecret (oauth2 cfg) = []
         then Inl (JsError
                ''Missing required environment variables: GOOGLE_CLIENT_ID and GOOGLE_CLIENT_SECRET'')
         else Inr (GmailMCPManager_new defaultPath cfg))"

subsection \<open>The interactive flow (\<^verbatim>\<open>performOAuth2Flow\<close>)\<close>

text \<open>
  The flow is event driven. It creates the server, starts listening on port 3000, asks
  for the browser to be opened (a failure to open it is only logged) and arms a timer of
  five minutes. From then on three kinds of event run code of the flow: an HTTP request
  reaches the listener, the awaited token exchange completes, and the timer fires.
\<close>

datatype event =
  Request "string option"
| TokenResponse "error + TokenData"
| TimerFires

text \<open>
  The state of one invocation: whether the listener is still accepting requests, how
  often \<^verbatim>\<open>server.destroy()\<close> has been called, whether the timer set by \<^verbatim>\<open>setTimeout\<close> has
  yet to fire, the state of the promise (\<open>None\<close> while pending), the authorization code
  whose exchange is being awaited, how often a response has been ended, and the service.
\<close>

record flow =
  listening :: bool
  destroy_calls :: nat
  timer_armed :: bool
  settled :: "(error + TokenData) option"
  exchanging :: "string option"
  responses_ended :: nat
  service :: AuthService

definition flow_start :: "AuthService \<Rightarrow> flow" where
  "flow_start s =
     \<lparr>listening = True, destroy_calls = 0, timer_armed = True, settled = None,
      exchanging = None, responses_ended = 0, service = s\<rparr>"

definition server_destroy :: "flow \<Rightarrow> flow" where
  "server_destroy f = f\<lparr>listening := False, destroy_calls := Suc (destroy_calls f)\<rparr>"

definition res_end :: "flow \<Rightarrow> flow" where
  "res_end f = f\<lparr>responses_ended := Suc (responses_ended f)\<rparr>"

text \<open>A promise settles once: \<^verbatim>\<open>resolve\<close> and \<^verbatim>\<open>reject\<close> on a settled promise do nothing.\<close>

definition reject :: "error \<Rightarrow> flow \<Rightarrow> flow" where
  "reject e f = (if settled f = None then f\<lparr>settled := Some (Inl e)\<rparr> else f)"

definition resolve :: "TokenData \<Rightarrow> flow \<Rightarrow> flow" where
  "resolve c f = (if settled f = None then f\<lparr>settled := Some (Inr c)\<rparr> else f)"

text \<open>
  The request handler up to its \<^verbatim>\<open>await\<close>. \<open>searchParams\<close> stands for
  \<^verbatim>\<open>new URL(req.url, 'http://localhost:3000').searchParams\<close>: the query's name and value
  pairs in order, or \<open>None\<close> when the URL constructor throws; \<^verbatim>\<open>get\<close> returns the first
  value of a name.
\<close>

definition handle_request ::
  "(string \<Rightarrow> (string \<times> string) list option) \<Rightarrow> string option \<Rightarrow> flow \<Rightarrow> flow" where
  "handle_request searchParams url f =
     (if truthy_str url \<and> indexOf (the url) ''/oauth2callback'' > - 1 then
        (case searchParams (the url) of
           None \<Rightarrow> reject (JsError ''Invalid URL'') (server_destroy (res_end f))
         | Some qs \<Rightarrow>
            (let code = map_of qs ''code''; err = map_of qs ''error''
             in if truthy_str err then
                  reject (AuthenticationError (''OAuth2 error: '' @ the err))
                    (server_destroy (res_end f))
                else if \<not> truthy_str code then
                  reject (AuthenticationError ''No authorization code received'')
                    (server_destroy (res_end f))
                else (server_destroy (res_end f))\<lparr>exchanging := code\<rparr>))
      else f)"

text \<open>
  The rest of the handler, run when \<^verbatim>\<open>getToken(code)\<close> completes: on success the tokens
  become the client's credentials and the promise is resolved; on failure the \<^verbatim>\<open>catch\<close>
  block ends the response, destroys the server and rejects with the error.
\<close>

definition handle_token :: "error + TokenData \<Rightarrow> flow \<Rightarrow> flow" where
  "handle_token r f =
     (case exchanging f of
        None \<Rightarrow> f
      | Some code \<Rightarrow>
         (case r of
            Inr tokens \<Rightarrow>
              resolve tokens (f\<lparr>exchanging := None, service := setCredentials tokens (service f)\<rparr>)
          | Inl err \<Rightarrow> reject err (server_destroy (res_end (f\<lparr>exchanging := None\<rparr>)))))"

text \<open>The timer's callback. Nothing in the source clears the timer, so it fires once.\<close>

definition handle_timeout :: "flow \<Rightarrow> flow" where
  "handle_timeout f =
     (if timer_armed f then
        reject (AuthenticationError ''Authentication timeout - please try again'')
          (server_destroy (f\<lparr>timer_armed := False\<rparr>))
      else f)"

text \<open>
  One event. The handler has no test of its own for the state of the server or of the
  promise: it runs for every request that is delivered, also for one that was already on
  its way when the server was destroyed. The state keeps the code of the most recent
  exchange that is being awaited.
\<close>

fun step :: "(string \<Rightarrow> (string \<times> string) list option) \<Rightarrow> flow \<Rightarrow> event \<Rightarrow> flow" where
  "step searchParams f (Request url) = handle_request searchParams url f"
| "step searchParams f (TokenResponse r) = handle_token r f"
| "step searchParams f TimerFires = handle_timeout f"

definition run_flow ::
  "(string \<Rightarrow> (string \<times> string) list option) \<Rightarrow> event list \<Rightarrow> flow \<Rightarrow> flow" where
  "run_flow searchParams es f = foldl (step searchParams) f es"

text \<open>
  \<^verbatim>\<open>performOAuth2Flow\<close> under a sequence of events: the promise's state at the end (\<open>None\<close>
  when nothing has settled it) and the service.
\<close>

definition performOAuth2Flow ::
  "(string \<Rightarrow> (string \<times> string) list option) \<Rightarrow> event list \<Rightarrow> AuthService \<Rightarrow>
   (error + TokenData) option \<times> AuthService" where
  "performOAuth2Flow searchParams es s =
     (let f = run_flow searchParams es (flow_start s) in (settled f, service f))"


text \<open>
  The query parameters of a request target that has no fragment and no escaped
  character, where the URL parser has nothing to decode: the text after the first
  \<^verbatim>\<open>?\<close> is cut at every \<^verbatim>\<open>&\<close>, empty pieces are dropped, and each piece is cut at its
  first \<^verbatim>\<open>=\<close>. It instantiates \<open>searchParams\<close> on the concrete requests below.
\<close>

definition plainSearchParams :: "string \<Rightarrow> (string \<times> string) list option" where
  "plainSearchParams u =
     Some (map (\<lambda>kv. (takeWhile (\<lambda>c. c \<noteq> CHR ''='') kv, drop 1 (dropWhile (\<lambda>c. c \<noteq> CHR ''='') kv)))
            (filter (\<lambda>kv. kv \<noteq> [])
               (split_on CHR ''&'' (drop 1 (dropWhile (\<lambda>c. c \<noteq> CHR ''?'') u)))))"

subsection \<open>\<^verbatim>\<open>authenticate\<close> and token refresh\<close>

text \<open>
  What the surroundings answer during one call of \<^verbatim>\<open>authenticate\<close>: the outcome of
  \<^verbatim>\<open>loadTokens\<close> (which absorbs its own failures into \<^verbatim>\<open>null\<close>), of the introspection
  request \<^verbatim>\<open>getTokenInfo\<close> for an access token, the clock read in \<^verbatim>\<open>isTokenValid\<close>, the
  outcome of \<^verbatim>\<open>refreshAccessToken\<close>, the error of writing the token file, if any, and the
  URL parser and the events of the interactive flow.
\<close>

record auth_env =
  stored_tokens :: "TokenData option"
  token_info :: "string option \<Rightarrow> error + unit"
  clock :: int
  refreshed :: "error + TokenData"
  write_error :: "TokenData \<Rightarrow> error option"
  search_params :: "string \<Rightarrow> (string \<times> string) list option"
  flow_events :: "event list"

text \<open>The calls that leave the process, in the order they are made.\<close>

datatype effect =
  GetTokenInfo "string option"
| RefreshAccessToken
| WriteTokenFile TokenData
| OAuth2Flow

definition saveTokens :: "auth_env \<Rightarrow> TokenData \<Rightarrow> (error + unit) \<times> effect list" where
  "saveTokens env tokens =
     (case write_error env tokens of
        Some e \<Rightarrow> (Inl (AuthenticationError (''Failed to save tokens: '' @ message e)),
                   [WriteTokenFile tokens])
      | None \<Rightarrow> (Inr (), [WriteTokenFile tokens]))"

definition refreshToken ::
  "auth_env \<Rightarrow> AuthService \<Rightarrow> (error + unit) \<times> AuthService \<times> effect list" where
  "refreshToken env s =
     (case refreshed env of
        Inl e \<Rightarrow> (Inl (AuthenticationError (''Token refresh failed: '' @ message e)), s,
                  [RefreshAccessToken])
      | Inr creds \<Rightarrow>
         (let s1 = setCredentials creds s
          in case saveTokens env creds of
               (Inl e, fx) \<Rightarrow>
                 (Inl (AuthenticationError (''Token refresh failed: '' @ message e)), s1,
                  RefreshAccessToken # fx)
             | (Inr u, fx) \<Rightarrow> (Inr (), s1, RefreshAccessToken # fx)))"

text \<open>
  \<^verbatim>\<open>isTokenValid\<close>: any error inside, from the introspection or from the refresh, makes
  the answer false; otherwise the answer is true, the introspection result being an object.
\<close>

definition isTokenValid :: "auth_env \<Rightarrow> AuthService \<Rightarrow> bool \<times> AuthService \<times> effect list" where
  "isTokenValid env s =
     (let token = access_token (credentials s)
      in case token_info env token of
           Inl e \<Rightarrow> (False, s, [GetTokenInfo token])
         | Inr tokenInfo \<Rightarrow>
            (let expiryDate = expiry_date (credentials s)
             in if truthy_num expiryDate \<and> the expiryDate - clock env < 5 * 60 * 1000 then
                  (case refreshToken env s of
                     (Inl e, s1, fx) \<Rightarrow> (False, s1, GetTokenInfo token # fx)
                   | (Inr u, s1, fx) \<Rightarrow> (True, s1, GetTokenInfo token # fx))
                else (True, s, [GetTokenInfo token])))"

text \<open>
  The second half of \<^verbatim>\<open>authenticate\<close>: the interactive flow, then saving its tokens. The
  result is \<open>None\<close> when the flow's promise is never settled; every error is rethrown as
  an \<^verbatim>\<open>AuthenticationError\<close> by the enclosing \<^verbatim>\<open>catch\<close>.
\<close>

definition authenticate_flow ::
  "auth_env \<Rightarrow> AuthService \<Rightarrow> effect list \<Rightarrow>
   (error + TokenData) option \<times> AuthService \<times> effect list" where
  "authenticate_flow env s fx =
     (case performOAuth2Flow (search_params env) (flow_events env) s of
        (None, s1) \<Rightarrow> (None, s1, fx @ [OAuth2Flow])
      | (Some (Inl e), s1) \<Rightarrow>
          (Some (Inl (AuthenticationError (''Authentication failed: '' @ message e))), s1,
           fx @ [OAuth2Flow])
      | (Some (Inr client), s1) \<Rightarrow>
          (case saveTokens env client of
             (Inl e, fx1) \<Rightarrow>
               (Some (Inl (AuthenticationError (''Authentication failed: '' @ message e))), s1,
                fx @ OAuth2Flow # fx1)
           | (Inr u, fx1) \<Rightarrow> (Some (Inr client), s1, fx @ OAuth2Flow # fx1)))"

definition authenticate ::
  "auth_env \<Rightarrow> AuthService \<Rightarrow> (error + TokenData) option \<times> AuthService \<times> effect list" where
  "authenticate env s =
     (case stored_tokens env of
        Some existingTokens \<Rightarrow>
          (case isTokenValid env (setCredentials existingTokens s) of
             (True, s1, fx) \<Rightarrow> (Some (Inr (credentials s1)), s1, fx)
           | (False, s1, fx) \<Rightarrow> authenticate_flow env s1 fx)
      | None \<Rightarrow> authenticate_flow env s [])"

text \<open>How many token refreshes a call made.\<close>

definition refresh_count :: "effect list \<Rightarrow> nat" where
  "refresh_count fx = length (filter (\<lambda>e. e = RefreshAccessToken) fx)"

subsection \<open>Logout and the mail service's use of the client\<close>





section \<open>Concrete inputs\<close>

text \<open>A served documentation payload, and a service holding one entry that expired at 1000.\<close>

definition sample_doc :: Context7Response where
  "sample_doc = \<lparr>documentation = ''Documentation'', examples = [], relevantLinks = []\<rparr>"

definition stale_service :: Context7Service where
  "stale_service =
     \<lparr>enabled = True, cache = [''x-y'' \<mapsto> sample_doc], cacheExpiry = [''x-y'' \<mapsto> 1000]\<rparr>"

definition failing_fetch :: "string \<Rightarrow> error + Context7Response" where
  "failing_fetch q = Inl (JsError ''unavailable'')"

definition sample_fetch :: "string \<Rightarrow> error + Context7Response" where
  "sample_fetch q = Inr sample_doc"

text \<open>A configured service before authentication, a token bundle, and five request targets.\<close>

definition example_path :: string where
  "example_path = ''/home/user/.gmail-mcp-tokens.json''"

definition example_service :: AuthService where
  "example_service =
     \<lparr>config = \<lparr>clientId = ''id'', clientSecret = ''secret'',
                 redirectUri = ''http://localhost:3000/oauth2callback'',
                 scopes = [''https://www.googleapis.com/auth/gmail.modify'']\<rparr>,
      storagePath = example_path,
      credentials = no_credentials\<rparr>"

definition example_tokens :: "int \<Rightarrow> TokenData" where
  "example_tokens expiry =
     \<lparr>access_token = Some ''ya29.token'', refresh_token = Some ''1//refresh'',
      scope = Some ''https://www.googleapis.com/auth/gmail.modify'',
      token_type = Some ''Bearer'', expiry_date = Some expiry\<rparr>"

definition denied_url :: string where
  "denied_url = ''/oauth2callback?error=access_denied''"

definition code_url :: string where
  "code_url = ''/oauth2callback?code=4/abc''"

definition bare_url :: string where
  "bare_url = ''/oauth2callback''"

definition favicon_url :: string where
  "favicon_url = ''/favicon.ico?next=/oauth2callback''"


text \<open>
  Surroundings in which a token file exists whose token expires at \<open>expiry\<close>, the clock
  reads 1700000000000, and introspection, refresh and file writes all succeed.
\<close>

definition example_env :: "int \<Rightarrow> auth_env" where
  "example_env expiry =
     \<lparr>stored_tokens = Some (example_tokens expiry),
      token_info = (\<lambda>t. Inr ()),
      clock = 1700000000000,
      refreshed = Inr (example_tokens 1700003600000),
      write_error = (\<lambda>t. None),
      search_params = plainSearchParams,
      flow_events = []\<rparr>"

text \<open>An environment that sets the client secret and leaves the client id unset.\<close>

definition env_without_client_id :: "string \<rightharpoonup> string" where
  "env_without_client_id = [''GOOGLE_CLIENT_SECRET'' \<mapsto> ''secret'']"

text \<open>
  The property that every step of the flow preserves: a listener that is still open
  belongs to a pending flow with no exchange under way and the timer armed; the listener
  is open exactly as long as \<^verbatim>\<open>destroy\<close> has not been called; a timer that has fired
  has settled the flow at the latest.
\<close>

definition flow_inv :: "flow \<Rightarrow> bool" where
  "flow_inv f =
     ((\<not> listening f \<or> (settled f = None \<and> exchanging f = None \<and> timer_armed f)) \<and>
      (listening f = (destroy_calls f = 0)) \<and>
      (timer_armed f \<or> settled f \<noteq> None))"


section \<open>Properties of the documentation cache\<close>

text \<open>
  C5. When a call fetches successfully and stores the result at time \<open>uA\<close>, a second
  call for the same operation and context at any time before \<open>uA\<close> plus thirty minutes
  returns the stored documentation without fetching, so the two calls fetch once in
  total; a further call at or after \<open>uA\<close> plus thirty minutes fetches again, which
  makes two fetches in total. The stored expiry time is assumed not to be the number
  zero, as it is for every clock reading after the epoch.
\<close>

theorem cached_within_duration_refetched_after:
  assumes "enabled s"
    and "fst (getCachedResponse (cacheKey operation context) tA s) = None"
    and "fetchA (mapOperationToSearchTerm operation context) = Inr d"
    and "uA + CACHE_DURATION \<noteq> 0"
    and "tB < uA + CACHE_DURATION" and "uA + CACHE_DURATION \<le> tC"
  shows "case getRelevantDocumentation fetchA tA uA operation context s of
           (r1, s1, fx1) \<Rightarrow>
         (case getRelevantDocumentation fetchB tB uB operation context s1 of
           (r2, s2, fx2) \<Rightarrow>
         (case getRelevantDocumentation fetchC tC uC operation context s2 of
           (r3, s3, fx3) \<Rightarrow>
             r1 = Some d \<and> r2 = Some d \<and> length (fx1 @ fx2) = 1 \<and>
             length (fx1 @ fx2 @ fx3) = 2))"
  using assms
  by (auto simp add: getRelevantDocumentation_def getCachedResponse_def setCachedResponse_def
      Let_def truthy_num_def CACHE_DURATION_def
      split: if_splits option.splits prod.splits sum.splits)

theorem cached_within_duration_refetched_after_witness:
  "case getRelevantDocumentation sample_fetch 1000 1100 ''x'' (Some ''y'') (Context7Service_new None) of
     (r1, s1, fx1) \<Rightarrow>
   (case getRelevantDocumentation failing_fetch 1801099 1801099 ''x'' (Some ''y'') s1 of
     (r2, s2, fx2) \<Rightarrow>
   (case getRelevantDocumentation failing_fetch 1801100 1801200 ''x'' (Some ''y'') s2 of
     (r3, s3, fx3) \<Rightarrow>
       r1 = Some sample_doc \<and> r2 = Some sample_doc \<and> length (fx1 @ fx2) = 1 \<and>
       length (fx1 @ fx2 @ fx3) = 2))"
proof -
  have h1: "enabled (Context7Service_new None)"
    by (simp add: Context7Service_new_def)
  have h2: "fst (getCachedResponse (cacheKey ''x'' (Some ''y'')) 1000 (Context7Service_new None)) = None"
    by (simp add: getCachedResponse_def Context7Service_new_def)
  have h3: "sample_fetch (mapOperationToSearchTerm ''x'' (Some ''y'')) = Inr sample_doc"
    by (simp add: sample_fetch_def)
  have h4: "1100 + CACHE_DURATION \<noteq> 0" and h5: "(1801099::int) < 1100 + CACHE_DURATION"
    and h6: "1100 + CACHE_DURATION \<le> (1801100::int)"
    by (simp_all add: CACHE_DURATION_def)
  show ?thesis
    by (rule cached_within_duration_refetched_after
          [where fetchA = sample_fetch and d = sample_doc, OF h1 h2 h3 h4 h5 h6])
qed

text \<open>
  C6. After \<^verbatim>\<open>setEnabled(false)\<close> every call returns \<^verbatim>\<open>null\<close>, calls the fetch function
  not at all and leaves the service as it is, whatever the cache holds.
\<close>

theorem disabled_returns_null_without_fetch:
  "getRelevantDocumentation fetch t u operation context (setEnabled False s) =
     (None, setEnabled False s, [])"
  by (simp add: getRelevantDocumentation_def setEnabled_def)

theorem disabled_returns_null_without_fetch_witness:
  "getRelevantDocumentation sample_fetch 500 600 ''x'' (Some ''y'') (setEnabled False stale_service) =
     (None, setEnabled False stale_service, []) \<and>
   cache (setEnabled False stale_service) ''x-y'' = Some sample_doc \<and>
   (500::int) < the (cacheExpiry (setEnabled False stale_service) ''x-y'')"
  using disabled_returns_null_without_fetch [of sample_fetch 500 600 "''x''" "Some ''y''" stale_service]
  by (simp add: setEnabled_def stale_service_def)

text \<open>
  C7, as stated, fails: a call whose fetch fails has first deleted the expired entry of
  its key, so the cache is not unchanged.
\<close>

theorem fetch_failure_cache_unchanged_counterexample:
  "fst (getRelevantDocumentation failing_fetch 2000 2100 ''x'' (Some ''y'') stale_service) = None \<and>
   cache (fst (snd (getRelevantDocumentation failing_fetch 2000 2100 ''x'' (Some ''y'') stale_service)))
     \<noteq> cache stale_service"
proof -
  have "cache (fst (snd (getRelevantDocumentation failing_fetch 2000 2100 ''x'' (Some ''y'') stale_service)))
          ''x-y'' = None"
    by (simp add: getRelevantDocumentation_def getCachedResponse_def cacheKey_def or_else_def
        stale_service_def failing_fetch_def truthy_num_def)
  moreover have "cache stale_service ''x-y'' = Some sample_doc"
    by (simp add: stale_service_def)
  moreover have "fst (getRelevantDocumentation failing_fetch 2000 2100 ''x'' (Some ''y'') stale_service) = None"
    by (simp add: getRelevantDocumentation_def getCachedResponse_def cacheKey_def or_else_def
        stale_service_def failing_fetch_def truthy_num_def)
  ultimately show ?thesis by auto
qed

text \<open>
  C7, amended. A call that invokes the fetch function and sees it fail returns
  \<^verbatim>\<open>null\<close> and stores nothing: afterwards its key has no entry, the entries of every other
  key and the enabled flag are as before, and when the key had no entry the whole
  service is unchanged. The error does not reach the caller: the result is a value.
\<close>

theorem fetch_failure_returns_null_stores_nothing:
  assumes "snd (snd (getRelevantDocumentation fetch t u operation context s)) \<noteq> []"
    and "fetch (mapOperationToSearchTerm operation context) = Inl e"
  shows "case getRelevantDocumentation fetch t u operation context s of
           (r, s', fx) \<Rightarrow>
             r = None \<and> cache s' (cacheKey operation context) = None \<and>
             (\<forall>k. k \<noteq> cacheKey operation context \<longrightarrow>
                   cache s' k = cache s k \<and> cacheExpiry s' k = cacheExpiry s k) \<and>
             enabled s' = enabled s \<and>
             (cache s (cacheKey operation context) = None \<longrightarrow> s' = s)"
  using assms
  by (auto simp add: getRelevantDocumentation_def getCachedResponse_def Let_def
      split: if_splits option.splits prod.splits)

theorem fetch_failure_returns_null_stores_nothing_witness:
  "fst (getRelevantDocumentation failing_fetch 2000 2100 ''x'' (Some ''y'') stale_service) = None \<and>
   cache (fst (snd (getRelevantDocumentation failing_fetch 2000 2100 ''x'' (Some ''y'') stale_service)))
     (cacheKey ''x'' (Some ''y'')) = None \<and>
   enabled (fst (snd (getRelevantDocumentation failing_fetch 2000 2100 ''x'' (Some ''y'') stale_service))) =
     enabled stale_service"
proof -
  have h1: "snd (snd (getRelevantDocumentation failing_fetch 2000 2100 ''x'' (Some ''y'') stale_service)) \<noteq> []"
    by (simp add: getRelevantDocumentation_def getCachedResponse_def cacheKey_def or_else_def
        stale_service_def failing_fetch_def truthy_num_def)
  have h2: "failing_fetch (mapOperationToSearchTerm ''x'' (Some ''y'')) = Inl (JsError ''unavailable'')"
    by (simp add: failing_fetch_def)
  show ?thesis
    using fetch_failure_returns_null_stores_nothing [where fetch = failing_fetch, OF h1 h2]
    by (simp add: split_beta)
qed

text \<open>
  C10, as stated, fails on its example: operation \<^verbatim>\<open>a\<close> with context \<^verbatim>\<open>b\<close> has the key
  \<^verbatim>\<open>a-b\<close>, operation \<^verbatim>\<open>a-b\<close> with context \<^verbatim>\<open>default\<close> has the key \<^verbatim>\<open>a-b-default\<close>.
\<close>

theorem cache_key_example_counterexample:
  "cacheKey ''a'' (Some ''b'') = ''a-b'' \<and> cacheKey ''a-b'' (Some ''default'') = ''a-b-default'' \<and>
   cacheKey ''a'' (Some ''b'') \<noteq> cacheKey ''a-b'' (Some ''default'')"
  by (simp add: cacheKey_def or_else_def)

text \<open>
  C10, amended. The key construction is not injective: operation \<^verbatim>\<open>a\<close> with context
  \<^verbatim>\<open>b-default\<close> and operation \<^verbatim>\<open>a-b\<close> with context \<^verbatim>\<open>default\<close> are different pairs with
  the same key \<^verbatim>\<open>a-b-default\<close>. Whenever two pairs share a key, a call for the second made
  before the entry fetched for the first expires returns that entry without fetching.
\<close>

theorem cache_key_collision_serves_other_pair:
  assumes "cacheKey opA ctxA = cacheKey opB ctxB"
    and "enabled s"
    and "fst (getCachedResponse (cacheKey opA ctxA) tA s) = None"
    and "fetchA (mapOperationToSearchTerm opA ctxA) = Inr d"
    and "uA + CACHE_DURATION \<noteq> 0" and "tB < uA + CACHE_DURATION"
  shows "(''a'', Some ''b-default'') \<noteq> (''a-b'', Some ''default'') \<and>
         cacheKey ''a'' (Some ''b-default'') = cacheKey ''a-b'' (Some ''default'') \<and>
         (case getRelevantDocumentation fetchA tA uA opA ctxA s of
            (r1, s1, fx1) \<Rightarrow>
              getRelevantDocumentation fetchB tB uB opB ctxB s1 = (Some d, s1, []))"
proof -
  have "cacheKey ''a'' (Some ''b-default'') = cacheKey ''a-b'' (Some ''default'')"
    by (simp add: cacheKey_def or_else_def)
  moreover have "case getRelevantDocumentation fetchA tA uA opA ctxA s of
            (r1, s1, fx1) \<Rightarrow>
              getRelevantDocumentation fetchB tB uB opB ctxB s1 = (Some d, s1, [])"
    using assms
    by (auto simp add: getRelevantDocumentation_def getCachedResponse_def setCachedResponse_def
        Let_def truthy_num_def CACHE_DURATION_def
        split: if_splits option.splits prod.splits sum.splits)
  ultimately show ?thesis by simp
qed

theorem cache_key_collision_serves_other_pair_witness:
  "(''a'', Some ''b-default'') \<noteq> (''a-b'', Some ''default'') \<and>
   cacheKey ''a'' (Some ''b-default'') = cacheKey ''a-b'' (Some ''default'') \<and>
   (case getRelevantDocumentation sample_fetch 1000 1100 ''a'' (Some ''b-default'') (Context7Service_new None) of
      (r1, s1, fx1) \<Rightarrow>
        getRelevantDocumentation failing_fetch 2000 2100 ''a-b'' (Some ''default'') s1 =
          (Some sample_doc, s1, []))"
proof -
  have h1: "cacheKey ''a'' (Some ''b-default'') = cacheKey ''a-b'' (Some ''default'')"
    by (simp add: cacheKey_def or_else_def)
  have h2: "enabled (Context7Service_new None)"
    by (simp add: Context7Service_new_def)
  have h3: "fst (getCachedResponse (cacheKey ''a'' (Some ''b-default'')) 1000 (Context7Service_new None)) = None"
    by (simp add: getCachedResponse_def Context7Service_new_def)
  have h4: "sample_fetch (mapOperationToSearchTerm ''a'' (Some ''b-default'')) = Inr sample_doc"
    by (simp add: sample_fetch_def)
  have h5: "1100 + CACHE_DURATION \<noteq> 0" and h6: "(2000::int) < 1100 + CACHE_DURATION"
    by (simp_all add: CACHE_DURATION_def)
  show ?thesis
    by (rule cache_key_collision_serves_other_pair
          [where fetchA = sample_fetch and d = sample_doc, OF h1 h2 h3 h4 h5 h6])
qed


section \<open>Properties of the interactive flow\<close>

lemma flow_inv_start: "flow_inv (flow_start s)"
  by (simp add: flow_inv_def flow_start_def)

lemma flow_inv_step: "flow_inv f \<Longrightarrow> flow_inv (step p f e)"
  by (cases e)
     (auto simp add: flow_inv_def handle_request_def handle_token_def handle_timeout_def
        reject_def resolve_def server_destroy_def res_end_def Let_def
        split: option.splits sum.splits if_splits)

lemma flow_inv_run: "flow_inv f \<Longrightarrow> flow_inv (run_flow p es f)"
  unfolding run_flow_def
  by (induction es arbitrary: f) (simp_all add: flow_inv_step)

lemma timer_stays_fired_step: "\<not> timer_armed f \<Longrightarrow> \<not> timer_armed (step p f e)"
  by (cases e)
     (auto simp add: handle_request_def handle_token_def handle_timeout_def
        reject_def resolve_def server_destroy_def res_end_def Let_def
        split: option.splits sum.splits)

lemma timer_stays_fired_run: "\<not> timer_armed f \<Longrightarrow> \<not> timer_armed (run_flow p es f)"
  unfolding run_flow_def
  by (induction es arbitrary: f) (simp_all add: timer_stays_fired_step)

lemma timer_fired_after: "TimerFires \<in> set es \<Longrightarrow> \<not> timer_armed (run_flow p es f)"
proof (induction es arbitrary: f)
  case Nil
  then show ?case by simp
next
  case (Cons e es)
  show ?case
  proof (cases "e = TimerFires")
    case True
    have "\<not> timer_armed (step p f TimerFires)"
      by (simp add: handle_timeout_def reject_def server_destroy_def)
    then have "\<not> timer_armed (run_flow p es (step p f TimerFires))"
      by (rule timer_stays_fired_run)
    with True show ?thesis by (simp add: run_flow_def)
  next
    case False
    with Cons.prems have "TimerFires \<in> set es" by simp
    then have "\<not> timer_armed (run_flow p es (step p f e))" by (rule Cons.IH)
    then show ?thesis by (simp add: run_flow_def)
  qed
qed

lemma timer_armed_step: "e \<noteq> TimerFires \<Longrightarrow> timer_armed (step p f e) = timer_armed f"
  by (cases e)
     (auto simp add: handle_request_def handle_token_def
        reject_def resolve_def server_destroy_def res_end_def Let_def
        split: option.splits sum.splits)

lemma timer_armed_run: "TimerFires \<notin> set es \<Longrightarrow> timer_armed (run_flow p es f) = timer_armed f"
  unfolding run_flow_def
proof (induction es arbitrary: f)
  case Nil
  show ?case by simp
next
  case (Cons e es)
  from Cons.prems have "e \<noteq> TimerFires" and "TimerFires \<notin> set es" by auto
  then show ?case using Cons.IH[of "step p f e"] by (simp add: timer_armed_step)
qed


lemma plain_denied: "plainSearchParams denied_url = Some [(''error'', ''access_denied'')]"
  by (simp add: plainSearchParams_def denied_url_def)

lemma plain_code: "plainSearchParams code_url = Some [(''code'', ''4/abc'')]"
  by (simp add: plainSearchParams_def code_url_def)

lemma plain_bare: "plainSearchParams bare_url = Some []"
  by (simp add: plainSearchParams_def bare_url_def)


lemma index_denied: "indexOf denied_url ''/oauth2callback'' = 0"
  by (simp add: denied_url_def)

lemma index_code: "indexOf code_url ''/oauth2callback'' = 0"
  by (simp add: code_url_def)

lemma index_bare: "indexOf bare_url ''/oauth2callback'' = 0"
  by (simp add: bare_url_def)



lemma urls_nonempty: "denied_url \<noteq> []" "code_url \<noteq> []" "bare_url \<noteq> []" "favicon_url \<noteq> []"
  by (simp_all add: denied_url_def code_url_def bare_url_def favicon_url_def)

lemmas flow_eval =
  run_flow_def flow_start_def handle_request_def handle_token_def handle_timeout_def
  truthy_str_def reject_def resolve_def server_destroy_def res_end_def urls_nonempty

text \<open>
  C1, as stated, fails: after a callback that carries an error parameter has closed the
  listener and failed the flow, the timer still fires and calls \<^verbatim>\<open>destroy\<close> a second
  time.
\<close>

theorem listener_closed_once_counterexample:
  "destroy_calls (run_flow plainSearchParams [Request (Some denied_url)] (flow_start example_service)) = 1 \<and>
   destroy_calls (run_flow plainSearchParams [Request (Some denied_url), TimerFires]
     (flow_start example_service)) = 2"
  by (simp add: flow_eval plain_denied index_denied)

text \<open>
  C1, amended. Under every sequence of events the listener is open exactly until the
  first call of \<^verbatim>\<open>destroy\<close>; once the flow has been resolved or rejected, and already
  while a received code is being exchanged, the listener is closed and \<^verbatim>\<open>destroy\<close> has
  been called at least once; and the flow is settled, at the latest, when the timer has
  fired. The number of calls is not bounded by one.
\<close>

theorem listener_closed_when_settled:
  "(listening (run_flow p es (flow_start s)) = (destroy_calls (run_flow p es (flow_start s)) = 0)) \<and>
   (settled (run_flow p es (flow_start s)) \<noteq> None \<longrightarrow>
      \<not> listening (run_flow p es (flow_start s)) \<and>
      1 \<le> destroy_calls (run_flow p es (flow_start s))) \<and>
   (exchanging (run_flow p es (flow_start s)) \<noteq> None \<longrightarrow>
      \<not> listening (run_flow p es (flow_start s))) \<and>
   (TimerFires \<in> set es \<longrightarrow> settled (run_flow p es (flow_start s)) \<noteq> None)"
proof -
  have inv: "flow_inv (run_flow p es (flow_start s))"
    by (rule flow_inv_run) (rule flow_inv_start)
  have "TimerFires \<in> set es \<Longrightarrow> settled (run_flow p es (flow_start s)) \<noteq> None"
    using inv timer_fired_after[of es p "flow_start s"] by (simp add: flow_inv_def)
  moreover have "settled (run_flow p es (flow_start s)) \<noteq> None \<Longrightarrow>
      \<not> listening (run_flow p es (flow_start s)) \<and>
      1 \<le> destroy_calls (run_flow p es (flow_start s))"
    using inv by (auto simp add: flow_inv_def)
  moreover have "listening (run_flow p es (flow_start s)) =
      (destroy_calls (run_flow p es (flow_start s)) = 0)"
    using inv by (simp add: flow_inv_def)
  moreover have "exchanging (run_flow p es (flow_start s)) \<noteq> None \<Longrightarrow>
      \<not> listening (run_flow p es (flow_start s))"
    using inv by (auto simp add: flow_inv_def)
  ultimately show ?thesis by blast
qed

theorem listener_closed_when_settled_witness:
  "settled (run_flow plainSearchParams
       [Request (Some code_url), TokenResponse (Inr (example_tokens 1700003600000)), TimerFires]
       (flow_start example_service)) = Some (Inr (example_tokens 1700003600000)) \<and>
   \<not> listening (run_flow plainSearchParams
       [Request (Some code_url), TokenResponse (Inr (example_tokens 1700003600000)), TimerFires]
       (flow_start example_service)) \<and>
   1 \<le> destroy_calls (run_flow plainSearchParams
       [Request (Some code_url), TokenResponse (Inr (example_tokens 1700003600000)), TimerFires]
       (flow_start example_service))"
proof -
  have h: "settled (run_flow plainSearchParams
       [Request (Some code_url), TokenResponse (Inr (example_tokens 1700003600000)), TimerFires]
       (flow_start example_service)) = Some (Inr (example_tokens 1700003600000))"
    by (simp add: flow_eval plain_code index_code)
  then show ?thesis
    using listener_closed_when_settled [of plainSearchParams
       "[Request (Some code_url), TokenResponse (Inr (example_tokens 1700003600000)), TimerFires]"
       example_service]
    by simp
qed

text \<open>
  C2, as stated, fails: after the flow has been failed by a callback with an error
  parameter the timer is still armed.
\<close>

theorem watchdog_cancelled_counterexample:
  "settled (run_flow plainSearchParams [Request (Some denied_url)] (flow_start example_service)) =
     Some (Inl (AuthenticationError ''OAuth2 error: access_denied'')) \<and>
   timer_armed (run_flow plainSearchParams [Request (Some denied_url)] (flow_start example_service))"
  by (simp add: flow_eval plain_denied index_denied)

text \<open>
  C2, amended. The timer is never cancelled: it stays armed until it fires. When it
  fires while the flow is pending, it stops the listener and fails the flow with the
  timeout error. When it fires after the flow has been settled, the outcome of the flow
  stays as it is and \<^verbatim>\<open>destroy\<close> is called once more.
\<close>

theorem watchdog_never_cancelled:
  "(TimerFires \<notin> set es \<longrightarrow> timer_armed (run_flow p es (flow_start s))) \<and>
   (timer_armed (run_flow p es (flow_start s)) \<and> settled (run_flow p es (flow_start s)) = None \<longrightarrow>
      settled (step p (run_flow p es (flow_start s)) TimerFires) =
        Some (Inl (AuthenticationError ''Authentication timeout - please try again'')) \<and>
      \<not> listening (step p (run_flow p es (flow_start s)) TimerFires)) \<and>
   (timer_armed (run_flow p es (flow_start s)) \<and> settled (run_flow p es (flow_start s)) \<noteq> None \<longrightarrow>
      settled (step p (run_flow p es (flow_start s)) TimerFires) =
        settled (run_flow p es (flow_start s)) \<and>
      destroy_calls (step p (run_flow p es (flow_start s)) TimerFires) =
        Suc (destroy_calls (run_flow p es (flow_start s))))"
proof -
  have "TimerFires \<notin> set es \<Longrightarrow> timer_armed (run_flow p es (flow_start s))"
    by (simp add: timer_armed_run flow_start_def)
  then show ?thesis
    by (auto simp add: handle_timeout_def reject_def server_destroy_def)
qed

theorem watchdog_never_cancelled_witness:
  "timer_armed (run_flow plainSearchParams [Request (Some bare_url)] (flow_start example_service)) \<and>
   settled (run_flow plainSearchParams [Request (Some bare_url)] (flow_start example_service)) \<noteq> None \<and>
   settled (step plainSearchParams
       (run_flow plainSearchParams [Request (Some bare_url)] (flow_start example_service)) TimerFires) =
     settled (run_flow plainSearchParams [Request (Some bare_url)] (flow_start example_service)) \<and>
   destroy_calls (step plainSearchParams
       (run_flow plainSearchParams [Request (Some bare_url)] (flow_start example_service)) TimerFires) =
     Suc (destroy_calls (run_flow plainSearchParams [Request (Some bare_url)] (flow_start example_service))) \<and>
   timer_armed (run_flow plainSearchParams [] (flow_start example_service)) \<and>
   settled (run_flow plainSearchParams [] (flow_start example_service)) = None \<and>
   settled (step plainSearchParams (run_flow plainSearchParams [] (flow_start example_service)) TimerFires) =
     Some (Inl (AuthenticationError ''Authentication timeout - please try again''))"
proof -
  have h1: "TimerFires \<notin> set [Request (Some bare_url)]" by simp
  have h2: "settled (run_flow plainSearchParams [Request (Some bare_url)] (flow_start example_service))
              \<noteq> None"
    by (simp add: flow_eval plain_bare index_bare)
  have h3: "TimerFires \<notin> set []" by simp
  have h4: "settled (run_flow plainSearchParams [] (flow_start example_service)) = None"
    by (simp add: flow_eval)
  show ?thesis
    using h1 h2 h3 h4
      watchdog_never_cancelled [of "[Request (Some bare_url)]" plainSearchParams example_service]
      watchdog_never_cancelled [of "[]" plainSearchParams example_service]
    by simp
qed




section \<open>Properties of \<^verbatim>\<open>authenticate\<close>, the client handle and the factories\<close>

lemma refresh_count_authenticate_flow:
  "refresh_count (snd (snd (authenticate_flow env s fx))) = refresh_count fx"
  by (simp add: authenticate_flow_def saveTokens_def refresh_count_def performOAuth2Flow_def Let_def
      split: prod.splits option.splits sum.splits)

text \<open>
  C3, as stated, fails at the boundary: a stored token that passes introspection and
  expires exactly five minutes after the clock reading is returned without a refresh.
\<close>

theorem refresh_boundary_counterexample:
  "the (expiry_date (example_tokens 1700000300000)) - clock (example_env 1700000300000) = 5 * 60 * 1000 \<and>
   authenticate (example_env 1700000300000) example_service =
     (Some (Inr (example_tokens 1700000300000)),
      setCredentials (example_tokens 1700000300000) example_service,
      [GetTokenInfo (Some ''ya29.token'')]) \<and>
   refresh_count (snd (snd (authenticate (example_env 1700000300000) example_service))) = 0"
  by (simp add: authenticate_def isTokenValid_def example_env_def example_tokens_def
      setCredentials_def truthy_num_def refresh_count_def)

text \<open>
  C3, amended. For a stored token that passes introspection and has an expiry time,
  \<^verbatim>\<open>authenticate\<close> requests exactly one refresh when the expiry is not zero and lies
  strictly less than five minutes after the clock reading (the boundary excluded), and
  none otherwise; when that refresh and the write of the token file succeed, it returns
  the refreshed credentials without entering the interactive flow.
\<close>

theorem refresh_once_when_expiring:
  assumes "stored_tokens env = Some tok"
    and "token_info env (access_token tok) = Inr ()"
    and "expiry_date tok = Some x"
  shows "refresh_count (snd (snd (authenticate env s))) =
           (if x \<noteq> 0 \<and> x - clock env < 5 * 60 * 1000 then 1 else 0) \<and>
         (x \<noteq> 0 \<and> x - clock env < 5 * 60 * 1000 \<and> refreshed env = Inr c \<and>
            write_error env c = None \<longrightarrow>
          authenticate env s =
            (Some (Inr c), setCredentials c s,
             [GetTokenInfo (access_token tok), RefreshAccessToken, WriteTokenFile c]))"
proof -
  have count: "refresh_count (snd (snd (authenticate env s))) =
           (if x \<noteq> 0 \<and> x - clock env < 5 * 60 * 1000 then 1 else 0)"
    using assms
    by (auto simp add: authenticate_def isTokenValid_def refreshToken_def saveTokens_def
        setCredentials_def truthy_num_def Let_def refresh_count_authenticate_flow
        split: sum.splits option.splits)
       (simp_all add: refresh_count_def)
  have ret: "x \<noteq> 0 \<and> x - clock env < 5 * 60 * 1000 \<and> refreshed env = Inr c \<and>
            write_error env c = None \<Longrightarrow>
          authenticate env s =
            (Some (Inr c), setCredentials c s,
             [GetTokenInfo (access_token tok), RefreshAccessToken, WriteTokenFile c])"
    using assms
    by (simp add: authenticate_def isTokenValid_def refreshToken_def saveTokens_def
        setCredentials_def truthy_num_def Let_def)
  from count ret show ?thesis by blast
qed

theorem refresh_once_when_expiring_witness:
  "refresh_count (snd (snd (authenticate (example_env 1700000299999) example_service))) = 1 \<and>
   authenticate (example_env 1700000299999) example_service =
     (Some (Inr (example_tokens 1700003600000)),
      setCredentials (example_tokens 1700003600000) example_service,
      [GetTokenInfo (access_token (example_tokens 1700000299999)), RefreshAccessToken,
       WriteTokenFile (example_tokens 1700003600000)])"
proof -
  have h1: "stored_tokens (example_env 1700000299999) = Some (example_tokens 1700000299999)"
    by (simp add: example_env_def)
  have h2: "token_info (example_env 1700000299999) (access_token (example_tokens 1700000299999)) = Inr ()"
    by (simp add: example_env_def)
  have h3: "expiry_date (example_tokens 1700000299999) = Some 1700000299999"
    by (simp add: example_tokens_def)
  have h4: "(1700000299999::int) \<noteq> 0 \<and> 1700000299999 - clock (example_env 1700000299999) < 5 * 60 * 1000 \<and>
      refreshed (example_env 1700000299999) = Inr (example_tokens 1700003600000) \<and>
      write_error (example_env 1700000299999) (example_tokens 1700003600000) = None"
    by (simp add: example_env_def)
  show ?thesis
    using refresh_once_when_expiring
        [OF h1 h2 h3, where c = "example_tokens 1700003600000" and s = example_service] h4
    by (simp add: refresh_count_def)
qed






text \<open>
  C4. With the client id unset, \<^verbatim>\<open>AuthService.fromEnvironment\<close> throws an
  \<^verbatim>\<open>AuthenticationError\<close>, and \<^verbatim>\<open>createFromEnvironment\<close> throws a plain \<^verbatim>\<open>Error\<close> with the
  same message, which is not an \<^verbatim>\<open>AuthenticationError\<close>.
\<close>

theorem createFromEnvironment_throws_plain_error:
  "fromEnvironment example_path env_without_client_id =
     Inl (AuthenticationError
       ''Missing required environment variables: GOOGLE_CLIENT_ID and GOOGLE_CLIENT_SECRET'') \<and>
   createFromEnvironment example_path env_without_client_id =
     Inl (JsError
       ''Missing required environment variables: GOOGLE_CLIENT_ID and GOOGLE_CLIENT_SECRET'') \<and>
   \<not> isAuthenticationError (JsError
       ''Missing required environment variables: GOOGLE_CLIENT_ID and GOOGLE_CLIENT_SECRET'')"
  by (simp add: fromEnvironment_def createFromEnvironment_def config_of_env_def
      env_without_client_id_def or_else_def Let_def)


end
